theory Spec2Isabelle
  imports Main
begin

section \<open>TransactionService: data model\<close>

text \<open>
  The service in \<^verbatim>\<open>src/server/application/TransactionService.js\<close> works on two
  tables through a record-mapping layer and a query builder. Rows are records; a table is
  the list of its rows in the store's own order. Dates are instants (milliseconds), and an
  amount is the exact decimal of the store's numeric column counted in minor units.
\<close>

type_synonym date = int

text \<open>
  The attributes of a transaction, as the data object passed to the service has them:
  \<^verbatim>\<open>id\<close> is optional there (\<open>None\<close> is an absent or null \<^verbatim>\<open>id\<close>), every other field
  is present. The field \<^verbatim>\<open>id\<close> is named \<open>id_attr\<close> (\<open>id\<close> is the identity of HOL).
\<close>

record transaction =
  id_attr :: "int option"
  txn_date :: date
  payee :: string
  memo :: string
  amount :: int
  account_id :: int
  category_id :: int

record account =
  a_id :: int
  a_name :: string

record category =
  c_id :: int
  c_name :: string

record store =
  transactions :: "transaction list"
  accounts :: "account list"
  categories :: "category list"

text \<open>
  A deferred result is a value: \<open>Inl\<close> a rejection, \<open>Inr\<close> the fulfilment.
  \<open>TypeError\<close> is what JavaScript raises on a method call on \<^verbatim>\<open>null\<close>.
\<close>

datatype error = NotFound | NoRowsUpdated | TypeError

type_synonym 'a promise = "error + 'a"

fun then_promise :: "'a promise \<Rightarrow> ('a \<Rightarrow> 'b promise) \<Rightarrow> 'b promise" where
  "then_promise (Inl e) f = Inl e"
| "then_promise (Inr x) f = f x"

text \<open>
  An optional argument of a JavaScript function: left out, \<^verbatim>\<open>null\<close>, or a value.
  A number is truthy unless it is zero; an object (a \<^verbatim>\<open>Date\<close>) is always truthy.
\<close>

datatype 'a js_arg = Undefined | Null | Given 'a

fun truthy_number :: "int js_arg \<Rightarrow> bool" where
  "truthy_number (Given n) = (n \<noteq> 0)"
| "truthy_number Undefined = False"
| "truthy_number Null = False"

fun truthy_object :: "'a js_arg \<Rightarrow> bool" where
  "truthy_object (Given x) = True"
| "truthy_object Undefined = False"
| "truthy_object Null = False"

section \<open>The record-mapping layer\<close>

text \<open>
  A model object holds the attributes of a row and the related models attached to it.
  The \<^verbatim>\<open>Transaction\<close> model has two relations, \<^verbatim>\<open>'account'\<close> and \<^verbatim>\<open>'category'\<close>. A relation
  that is attached is an entry of \<open>relations\<close>, and its value is a model object: it holds
  the row found through the foreign key (\<open>Some\<close>), or no attributes (\<open>None\<close>) when no row
  has that key. A relation that is not attached has no entry.
\<close>

datatype relation = Account | Category

datatype related = RelAccount "account option" | RelCategory "category option"

record transaction_model =
  attributes :: transaction
  relations :: "(relation \<times> related) list"

text \<open>
  Modelled from the spec: the constructor of the \<^verbatim>\<open>Transaction\<close> model
  (\<^verbatim>\<open>../domain\<close>, not among the sources). \<^verbatim>\<open>new Transaction(data)\<close> is a model with
  the data as its attributes and nothing attached.
\<close>

definition new_Transaction :: "transaction \<Rightarrow> transaction_model" where
  "new_Transaction transactionData = \<lparr>attributes = transactionData, relations = []\<rparr>"

text \<open>
  Modelled from the spec: the identifier is an integer generated by the store, which is
  not among the sources. The store hands out a positive integer above every identifier
  in the table.
\<close>

definition generated_id :: "transaction list \<Rightarrow> int" where
  "generated_id rows = 1 + fold max (map (\<lambda>r. case id_attr r of None \<Rightarrow> 0 | Some i \<Rightarrow> i) rows) 0"

text \<open>
  Modelled from the spec: \<^verbatim>\<open>save\<close> of the \<^verbatim>\<open>Transaction\<close> model (\<^verbatim>\<open>../domain\<close> and the
  record-mapping layer, not among the sources). A model without an \<^verbatim>\<open>id\<close> is new and is
  inserted as a new row with a generated identifier; with an \<^verbatim>\<open>id\<close> the rows of that
  identifier are replaced by the attributes, all fields, and an update that matches no
  row is rejected. The result is the saved model and the store after the call.
\<close>

definition isNew :: "transaction_model \<Rightarrow> bool" where
  "isNew m = (id_attr (attributes m) = None)"

definition insert_row :: "transaction_model \<Rightarrow> store \<Rightarrow> transaction_model promise \<times> store" where
  "insert_row m st =
     (let row = (attributes m)\<lparr>id_attr := Some (generated_id (transactions st))\<rparr>
      in (Inr (m\<lparr>attributes := row\<rparr>), st\<lparr>transactions := transactions st @ [row]\<rparr>))"

definition update_row :: "transaction_model \<Rightarrow> store \<Rightarrow> transaction_model promise \<times> store" where
  "update_row m st =
     (if list_ex (\<lambda>r. id_attr r = id_attr (attributes m)) (transactions st)
      then (Inr m,
            st\<lparr>transactions :=
                 map (\<lambda>r. if id_attr r = id_attr (attributes m) then attributes m else r)
                   (transactions st)\<rparr>)
      else (Inl NoRowsUpdated, st))"

definition save :: "transaction_model \<Rightarrow> store \<Rightarrow> transaction_model promise \<times> store" where
  "save m st = (if isNew m then insert_row m st else update_row m st)"

text \<open>
  Modelled from the spec: \<^verbatim>\<open>new Transaction({id: id}).fetch(options)\<close>. The first row
  with the identifier becomes a model; when no row matches, a required fetch is rejected
  with the not-found error and a fetch that is not required is fulfilled with \<^verbatim>\<open>null\<close>.
\<close>

record fetch_options =
  require :: bool

definition fetch :: "int \<Rightarrow> fetch_options \<Rightarrow> store \<Rightarrow> transaction_model option promise" where
  "fetch i options st =
     (case find (\<lambda>r. id_attr r = Some i) (transactions st) of
        Some row \<Rightarrow> Inr (Some (new_Transaction row))
      | None \<Rightarrow> (if require options then Inl NotFound else Inr None))"

text \<open>
  Modelled from the spec: eager loading of relations. Each named relation is resolved
  through its foreign key (\<^verbatim>\<open>account_id\<close> to accounts, \<^verbatim>\<open>category_id\<close> to categories) and
  attached to the model.
\<close>

fun relatedInstance :: "store \<Rightarrow> transaction \<Rightarrow> relation \<Rightarrow> related" where
  "relatedInstance st t Account = RelAccount (find (\<lambda>a. a_id a = account_id t) (accounts st))"
| "relatedInstance st t Category = RelCategory (find (\<lambda>c. c_id c = category_id t) (categories st))"

definition attach :: "store \<Rightarrow> relation list \<Rightarrow> transaction_model \<Rightarrow> transaction_model" where
  "attach st names m = m\<lparr>relations := map (\<lambda>n. (n, relatedInstance st (attributes m) n)) names\<rparr>"

definition load :: "store \<Rightarrow> relation list \<Rightarrow> transaction_model \<Rightarrow> transaction_model promise" where
  "load st names m = Inr (attach st names m)"

text \<open>The same on a collection: every model of the collection gets its relations.\<close>

definition load_all :: "store \<Rightarrow> relation list \<Rightarrow> transaction_model list \<Rightarrow> transaction_model list promise" where
  "load_all st names ms = Inr (map (attach st names) ms)"

text \<open>
  Modelled from the spec: \<^verbatim>\<open>Transaction.where(filterOptions).fetchAll()\<close>. The filter
  object of the service has at most the key \<^verbatim>\<open>account_id\<close>; an empty object selects
  every row.
\<close>

record filterOptions =
  where_account_id :: "int option"

definition fetchAll :: "filterOptions \<Rightarrow> store \<Rightarrow> transaction_model list promise" where
  "fetchAll fo st =
     Inr (map new_Transaction
            (case where_account_id fo of
               None \<Rightarrow> transactions st
             | Some a \<Rightarrow> filter (\<lambda>r. account_id r = a) (transactions st)))"

text \<open>
  Modelled from the spec: \<^verbatim>\<open>new Transaction({id: id}).destroy()\<close>, a delete by
  identifier. Deleting an identifier that no row has leaves the table as it is.
\<close>

definition destroy :: "int \<Rightarrow> store \<Rightarrow> unit promise \<times> store" where
  "destroy i st = (Inr (), st\<lparr>transactions := filter (\<lambda>r. id_attr r \<noteq> Some i) (transactions st)\<rparr>)"

section \<open>The query builder\<close>

text \<open>
  Modelled from the spec: the clauses of the query builder (\<^verbatim>\<open>../infrastructure/orm\<close>,
  not among the sources) and the store that evaluates them, with the meaning SQL gives
  them. A row of the join is a row of the left table with a matching row of the right
  table, or with none (\<^verbatim>\<open>NULL\<close> columns) when the left row has no match.
\<close>

type_synonym joined = "transaction \<times> category option"

definition leftOuterJoin :: "transaction list \<Rightarrow> category list \<Rightarrow> (transaction \<Rightarrow> int) \<Rightarrow> (category \<Rightarrow> int) \<Rightarrow> joined list" where
  "leftOuterJoin ts cs fk pk =
     concat (map (\<lambda>t. case filter (\<lambda>c. fk t = pk c) cs of
                        [] \<Rightarrow> [(t, None)]
                      | ms \<Rightarrow> map (\<lambda>c. (t, Some c)) ms) ts)"

text \<open>\<^verbatim>\<open>BETWEEN\<close> has both bounds in the range.\<close>

definition whereBetween :: "(transaction \<Rightarrow> date) \<Rightarrow> date \<times> date \<Rightarrow> joined list \<Rightarrow> joined list" where
  "whereBetween col bounds qb = filter (\<lambda>j. fst bounds \<le> col (fst j) \<and> col (fst j) \<le> snd bounds) qb"

text \<open>One group for each value of the key among the rows, \<^verbatim>\<open>NULL\<close> being one value.\<close>

definition groupBy :: "(joined \<Rightarrow> int option) \<Rightarrow> joined list \<Rightarrow> (int option \<times> joined list) list" where
  "groupBy key qb = map (\<lambda>k. (k, filter (\<lambda>j. key j = k) qb)) (remdups (map key qb))"

text \<open>
  The selected columns of a group: \<^verbatim>\<open>c.id as cat_id\<close>, \<^verbatim>\<open>c.name as cat_name\<close> and
  \<^verbatim>\<open>sum(t.amount) as amount\<close> (named \<open>amount_sum\<close> here). The sum over no rows is \<^verbatim>\<open>NULL\<close>.
\<close>

record category_row =
  cat_id :: "int option"
  cat_name :: "string option"
  amount_sum :: "int option"

definition c_dot_id :: "joined \<Rightarrow> int option" where
  "c_dot_id j = map_option c_id (snd j)"

definition c_dot_name :: "joined \<Rightarrow> string option" where
  "c_dot_name j = map_option c_name (snd j)"

definition select :: "int option \<times> joined list \<Rightarrow> category_row" where
  "select g =
     \<lparr>cat_id = fst g,
      cat_name = (case snd g of [] \<Rightarrow> None | j # _ \<Rightarrow> c_dot_name j),
      amount_sum = (case snd g of [] \<Rightarrow> None | _ # _ \<Rightarrow> Some (sum_list (map (\<lambda>j. amount (fst j)) (snd g))))\<rparr>"

section \<open>The service\<close>

definition saveTransaction :: "transaction \<Rightarrow> store \<Rightarrow> transaction_model promise \<times> store" where
  "saveTransaction transactionData st =
     (let transaction = new_Transaction transactionData
      in save transaction st)"

definition createTransaction :: "transaction \<Rightarrow> store \<Rightarrow> transaction_model promise \<times> store" where
  "createTransaction transactionData st = saveTransaction transactionData st"

definition updateTransaction :: "transaction \<Rightarrow> store \<Rightarrow> transaction_model promise \<times> store" where
  "updateTransaction transactionData st = saveTransaction transactionData st"

definition getTransaction :: "int \<Rightarrow> store \<Rightarrow> transaction_model promise" where
  "getTransaction i st =
     then_promise (fetch i \<lparr>require = True\<rparr> st)
       (\<lambda>transaction. case transaction of
                         None \<Rightarrow> Inl TypeError
                       | Some m \<Rightarrow> load st [Account, Category] m)"

definition getTransactions :: "int js_arg \<Rightarrow> store \<Rightarrow> transaction_model list promise" where
  "getTransactions accountId st =
     (let filterOptions = \<lparr>where_account_id = None\<rparr>;
          filterOptions = (if truthy_number accountId
                           then (case accountId of
                                   Given a \<Rightarrow> filterOptions\<lparr>where_account_id := Some a\<rparr>
                                 | _ \<Rightarrow> filterOptions)
                           else filterOptions)
      in then_promise (fetchAll filterOptions st)
           (\<lambda>transactions. load_all st [Account, Category] transactions))"

definition getTransactionsByCategory :: "date js_arg \<Rightarrow> date js_arg \<Rightarrow> store \<Rightarrow> category_row list promise" where
  "getTransactionsByCategory startDate endDate st =
     (let qb = leftOuterJoin (transactions st) (categories st) category_id c_id;
          qb = (if truthy_object startDate \<and> truthy_object endDate
                then (case (startDate, endDate) of
                        (Given s, Given e) \<Rightarrow> whereBetween txn_date (s, e) qb
                      | _ \<Rightarrow> qb)
                else qb)
      in Inr (map select (groupBy c_dot_id qb)))"

definition deleteTransaction :: "int \<Rightarrow> store \<Rightarrow> unit promise \<times> store" where
  "deleteTransaction i st = destroy i st"

section \<open>Example stores\<close>

text \<open>
  The example of the specification: two transactions of category 1 (of account 1), one
  of category 2 (of account 2); and a category 3 without transactions.
\<close>

definition txn1 :: transaction where
  "txn1 = \<lparr>id_attr = Some 1, txn_date = 100, payee = ''Chevron Gas Station'', memo = ''Gas'',
            amount = - 30, account_id = 1, category_id = 1\<rparr>"

definition txn2 :: transaction where
  "txn2 = \<lparr>id_attr = Some 2, txn_date = 200, payee = ''Garage'', memo = ''Oil'',
            amount = - 20, account_id = 1, category_id = 1\<rparr>"

definition txn3 :: transaction where
  "txn3 = \<lparr>id_attr = Some 3, txn_date = 300, payee = ''Employer'', memo = ''Pay'',
            amount = 100, account_id = 2, category_id = 2\<rparr>"

definition example_store :: store where
  "example_store =
     \<lparr>transactions = [txn1, txn2, txn3],
      accounts = [\<lparr>a_id = 1, a_name = ''Checking''\<rparr>, \<lparr>a_id = 2, a_name = ''Savings''\<rparr>],
      categories = [\<lparr>c_id = 1, c_name = ''Auto''\<rparr>, \<lparr>c_id = 2, c_name = ''Salary''\<rparr>,
                    \<lparr>c_id = 3, c_name = ''Travel''\<rparr>]\<rparr>"

text \<open>
  The same store with one more transaction, whose \<^verbatim>\<open>category_id\<close> is the identifier of
  no category.
\<close>

definition txn4 :: transaction where
  "txn4 = \<lparr>id_attr = Some 4, txn_date = 400, payee = ''Kiosk'', memo = ''Misc'',
            amount = 7, account_id = 1, category_id = 9\<rparr>"

definition example_store2 :: store where
  "example_store2 = example_store\<lparr>transactions := [txn1, txn2, txn3, txn4]\<rparr>"

section \<open>Saving: insert and update\<close>

lemma fold_max_ge: "(a::int) \<le> fold max xs a"
  by (induction xs arbitrary: a) (auto intro: order_trans [OF max.cobounded2])

lemma fold_max_mem: "(x::int) \<in> set xs \<Longrightarrow> x \<le> fold max xs a"
proof (induction xs arbitrary: a)
  case Nil
  then show ?case by simp
next
  case (Cons y ys)
  show ?case
  proof (cases "x = y")
    case True
    have "y \<le> max y a" by simp
    also have "\<dots> \<le> fold max ys (max y a)" by (rule fold_max_ge)
    finally show ?thesis using True by simp
  next
    case False
    with Cons.prems have "x \<in> set ys" by simp
    then show ?thesis using Cons.IH by simp
  qed
qed

lemma generated_id_positive: "0 < generated_id rows"
  using fold_max_ge [of 0 "map (\<lambda>r. case id_attr r of None \<Rightarrow> 0 | Some i \<Rightarrow> i) rows"]
  by (simp add: generated_id_def)

lemma generated_id_above: "r \<in> set rows \<Longrightarrow> id_attr r = Some i \<Longrightarrow> i < generated_id rows"
proof -
  assume r: "r \<in> set rows" and i: "id_attr r = Some i"
  let ?ids = "map (\<lambda>r. case id_attr r of None \<Rightarrow> 0 | Some i \<Rightarrow> i) rows"
  from r i have "i \<in> set ?ids" by force
  then have "i \<le> fold max ?ids 0" by (rule fold_max_mem)
  then show ?thesis by (simp add: generated_id_def)
qed

lemma generated_id_fresh: "Some (generated_id rows) \<notin> id_attr ` set rows"
proof
  assume "Some (generated_id rows) \<in> id_attr ` set rows"
  then obtain r where "r \<in> set rows" and "id_attr r = Some (generated_id rows)" by force
  then have "generated_id rows < generated_id rows" by (rule generated_id_above)
  then show False by simp
qed

lemma find_replaced:
  "list_ex (\<lambda>r. id_attr r = Some i) rows \<Longrightarrow> id_attr d = Some i \<Longrightarrow>
   find (\<lambda>r. id_attr r = Some i) (map (\<lambda>r. if id_attr r = Some i then d else r) rows) = Some d"
  by (induction rows) auto

lemmas example_defs = example_store_def example_store2_def txn1_def txn2_def txn3_def txn4_def

text \<open>
  C8: \<^verbatim>\<open>createTransaction\<close> and \<^verbatim>\<open>updateTransaction\<close> are the same function: both hand
  the data to \<^verbatim>\<open>saveTransaction\<close>, and there only the \<^verbatim>\<open>id\<close> of the data decides between
  an insert (no \<^verbatim>\<open>id\<close>) and an update (an \<^verbatim>\<open>id\<close>), whichever entry point was called.
\<close>

theorem createTransaction_eq_updateTransaction:
  "createTransaction = updateTransaction \<and>
   createTransaction d st = saveTransaction d st \<and>
   updateTransaction d st = saveTransaction d st \<and>
   saveTransaction d st =
     (case id_attr d of
        None \<Rightarrow> insert_row (new_Transaction d) st
      | Some i \<Rightarrow> update_row (new_Transaction d) st)"
  by (auto simp: fun_eq_iff createTransaction_def updateTransaction_def saveTransaction_def
      save_def isNew_def new_Transaction_def split: option.splits)

theorem createTransaction_eq_updateTransaction_witness:
  "createTransaction txn1 example_store = update_row (new_Transaction txn1) example_store \<and>
   updateTransaction (txn1\<lparr>id_attr := None\<rparr>) example_store =
     insert_row (new_Transaction (txn1\<lparr>id_attr := None\<rparr>)) example_store"
  using createTransaction_eq_updateTransaction [of txn1 example_store]
    createTransaction_eq_updateTransaction [of "txn1\<lparr>id_attr := None\<rparr>" example_store]
  by (simp add: txn1_def)

text \<open>
  C4: for transaction data without an \<^verbatim>\<open>id\<close>, \<^verbatim>\<open>createTransaction\<close> appends a new row to
  the table and is fulfilled with a record that is the input with a newly assigned
  identifier: a positive integer that no row of the table had, every other field as in
  the input.
\<close>

theorem createTransaction_inserts_with_new_id:
  assumes "id_attr d = None"
  shows "createTransaction d st =
           (Inr (new_Transaction (d\<lparr>id_attr := Some (generated_id (transactions st))\<rparr>)),
            st\<lparr>transactions := transactions st @ [d\<lparr>id_attr := Some (generated_id (transactions st))\<rparr>]\<rparr>)
         \<and> 0 < generated_id (transactions st)
         \<and> Some (generated_id (transactions st)) \<notin> id_attr ` set (transactions st)"
  using assms generated_id_positive [of "transactions st"] generated_id_fresh [of "transactions st"]
  by (simp add: createTransaction_def saveTransaction_def save_def isNew_def insert_row_def
      new_Transaction_def Let_def)

theorem createTransaction_inserts_with_new_id_witness:
  "id_attr (txn2\<lparr>id_attr := None\<rparr>) = None \<and>
   createTransaction (txn2\<lparr>id_attr := None\<rparr>) example_store =
     (Inr (new_Transaction (txn2\<lparr>id_attr := Some 4\<rparr>)),
      example_store\<lparr>transactions := [txn1, txn2, txn3, txn2\<lparr>id_attr := Some 4\<rparr>]\<rparr>) \<and>
   Some 4 \<notin> id_attr ` set (transactions example_store)"
proof -
  have h: "id_attr (txn2\<lparr>id_attr := None\<rparr>) = None" by simp
  have g: "generated_id (transactions example_store) = 4"
    by (simp add: generated_id_def example_defs)
  from createTransaction_inserts_with_new_id [OF h, of example_store] h show ?thesis
    by (simp add: g) (simp add: example_store_def)
qed

text \<open>
  C5: for transaction data whose \<^verbatim>\<open>id\<close> is that of an existing row,
  \<^verbatim>\<open>updateTransaction\<close> replaces the row of that identifier by the data, all fields, and is
  fulfilled with a record equal to the input, the identifier being the one of the row;
  a fetch of the identifier afterwards finds the data.
\<close>

theorem updateTransaction_replaces_row:
  assumes "id_attr d = Some i" and "row \<in> set (transactions st)" and "id_attr row = Some i"
  shows "updateTransaction d st =
           (Inr (new_Transaction d),
            st\<lparr>transactions := map (\<lambda>r. if id_attr r = Some i then d else r) (transactions st)\<rparr>)
         \<and> attributes (new_Transaction d) = d
         \<and> id_attr (attributes (new_Transaction d)) = id_attr row
         \<and> fetch i \<lparr>require = True\<rparr> (snd (updateTransaction d st)) = Inr (Some (new_Transaction d))"
proof -
  from assms(2,3) have ex: "list_ex (\<lambda>r. id_attr r = Some i) (transactions st)"
    by (auto simp: list_ex_iff)
  have upd: "updateTransaction d st =
           (Inr (new_Transaction d),
            st\<lparr>transactions := map (\<lambda>r. if id_attr r = Some i then d else r) (transactions st)\<rparr>)"
    using assms(1) ex
    by (simp add: updateTransaction_def saveTransaction_def save_def isNew_def update_row_def
        new_Transaction_def Let_def)
  have "fetch i \<lparr>require = True\<rparr> (snd (updateTransaction d st)) = Inr (Some (new_Transaction d))"
    using find_replaced [OF ex assms(1)] by (simp add: upd fetch_def)
  with upd assms show ?thesis by (simp add: new_Transaction_def)
qed

theorem updateTransaction_replaces_row_witness:
  "id_attr (txn1\<lparr>id_attr := Some 3\<rparr>) = Some 3 \<and> txn3 \<in> set (transactions example_store) \<and>
   id_attr txn3 = Some 3 \<and>
   updateTransaction (txn1\<lparr>id_attr := Some 3\<rparr>) example_store =
     (Inr (new_Transaction (txn1\<lparr>id_attr := Some 3\<rparr>)),
      example_store\<lparr>transactions := [txn1, txn2, txn1\<lparr>id_attr := Some 3\<rparr>]\<rparr>)"
proof -
  have h1: "id_attr (txn1\<lparr>id_attr := Some 3\<rparr>) = Some 3" by simp
  have h2: "txn3 \<in> set (transactions example_store)" by (simp add: example_store_def)
  have h3: "id_attr txn3 = Some 3" by (simp add: txn3_def)
  have m: "map (\<lambda>r. if id_attr r = Some 3 then txn1\<lparr>id_attr := Some 3\<rparr> else r)
             (transactions example_store) = [txn1, txn2, txn1\<lparr>id_attr := Some 3\<rparr>]"
    by (simp add: example_defs)
  from updateTransaction_replaces_row [OF h1 h2 h3] h1 h2 h3 show ?thesis
    by (simp add: m)
qed

section \<open>Reading and deleting\<close>

lemma find_filter_None: "find P (filter (\<lambda>x. \<not> P x) xs) = None"
  by (induction xs) auto

lemma attributes_attach:
  "map (attributes \<circ> (attach st names \<circ> new_Transaction)) rows = rows"
  by (induction rows) (simp_all add: attach_def new_Transaction_def)

lemma find_by_key:
  "k \<in> f ` set xs \<Longrightarrow> \<exists>x. find (\<lambda>x. f x = k) xs = Some x \<and> f x = k \<and> x \<in> set xs"
  by (induction xs) auto

text \<open>
  C3: \<^verbatim>\<open>getTransaction(id)\<close> is rejected with the not-found error when no row of the
  table has the identifier; when a row has it, the call is fulfilled with that row as a
  record to which exactly the two relations \<^verbatim>\<open>account\<close> and \<^verbatim>\<open>category\<close> are attached,
  each a model object resolved through the row's foreign key. When the foreign keys name
  an account and a category of the store, the attached models hold that account and that
  category.
\<close>

theorem getTransaction_not_found_or_loaded:
  "(Some i \<notin> id_attr ` set (transactions st) \<longrightarrow> getTransaction i st = Inl NotFound) \<and>
   (find (\<lambda>r. id_attr r = Some i) (transactions st) = Some row \<longrightarrow>
      id_attr row = Some i \<and>
      getTransaction i st =
        Inr \<lparr>attributes = row,
             relations =
               [(Account, RelAccount (find (\<lambda>a. a_id a = account_id row) (accounts st))),
                (Category, RelCategory (find (\<lambda>c. c_id c = category_id row) (categories st)))]\<rparr>) \<and>
   (find (\<lambda>r. id_attr r = Some i) (transactions st) = Some row \<and>
    account_id row \<in> a_id ` set (accounts st) \<and> category_id row \<in> c_id ` set (categories st) \<longrightarrow>
      (\<exists>a c. a \<in> set (accounts st) \<and> a_id a = account_id row \<and>
             c \<in> set (categories st) \<and> c_id c = category_id row \<and>
             getTransaction i st =
               Inr \<lparr>attributes = row,
                    relations = [(Account, RelAccount (Some a)), (Category, RelCategory (Some c))]\<rparr>))"
proof -
  have not_found: "getTransaction i st = Inl NotFound"
    if "Some i \<notin> id_attr ` set (transactions st)"
  proof -
    from that have "\<forall>r \<in> set (transactions st). id_attr r \<noteq> Some i" by force
    then have "find (\<lambda>r. id_attr r = Some i) (transactions st) = None"
      by (simp add: find_None_iff)
    then show ?thesis by (simp add: getTransaction_def fetch_def)
  qed
  have loaded: "getTransaction i st =
        Inr \<lparr>attributes = row,
             relations =
               [(Account, RelAccount (find (\<lambda>a. a_id a = account_id row) (accounts st))),
                (Category, RelCategory (find (\<lambda>c. c_id c = category_id row) (categories st)))]\<rparr>"
    if "find (\<lambda>r. id_attr r = Some i) (transactions st) = Some row"
    using that by (simp add: getTransaction_def fetch_def load_def attach_def new_Transaction_def)
  have ident: "id_attr row = Some i"
    if "find (\<lambda>r. id_attr r = Some i) (transactions st) = Some row"
    using that by (auto simp: find_Some_iff)
  have resolved: "\<exists>a c. a \<in> set (accounts st) \<and> a_id a = account_id row \<and>
             c \<in> set (categories st) \<and> c_id c = category_id row \<and>
             getTransaction i st =
               Inr \<lparr>attributes = row,
                    relations = [(Account, RelAccount (Some a)), (Category, RelCategory (Some c))]\<rparr>"
    if f: "find (\<lambda>r. id_attr r = Some i) (transactions st) = Some row"
      and fa: "account_id row \<in> a_id ` set (accounts st)"
      and fc: "category_id row \<in> c_id ` set (categories st)"
  proof -
    from find_by_key [OF fa] obtain a
      where a: "find (\<lambda>a. a_id a = account_id row) (accounts st) = Some a"
        "a_id a = account_id row" "a \<in> set (accounts st)"
      by blast
    from find_by_key [OF fc] obtain c
      where c: "find (\<lambda>c. c_id c = category_id row) (categories st) = Some c"
        "c_id c = category_id row" "c \<in> set (categories st)"
      by blast
    from loaded [OF f] a c show ?thesis by auto
  qed
  from not_found loaded ident resolved show ?thesis by blast
qed

theorem getTransaction_not_found_or_loaded_witness:
  "Some 5 \<notin> id_attr ` set (transactions example_store) \<and>
   getTransaction 5 example_store = Inl NotFound \<and>
   find (\<lambda>r. id_attr r = Some 3) (transactions example_store) = Some txn3 \<and>
   account_id txn3 \<in> a_id ` set (accounts example_store) \<and>
   category_id txn3 \<in> c_id ` set (categories example_store) \<and>
   getTransaction 3 example_store =
     Inr \<lparr>attributes = txn3,
          relations =
            [(Account, RelAccount (find (\<lambda>a. a_id a = account_id txn3) (accounts example_store))),
             (Category, RelCategory (find (\<lambda>c. c_id c = category_id txn3) (categories example_store)))]\<rparr> \<and>
   getTransaction 3 example_store =
     Inr \<lparr>attributes = txn3,
          relations =
            [(Account, RelAccount (Some \<lparr>a_id = 2, a_name = ''Savings''\<rparr>)),
             (Category, RelCategory (Some \<lparr>c_id = 2, c_name = ''Salary''\<rparr>))]\<rparr>"
proof -
  have h1: "Some 5 \<notin> id_attr ` set (transactions example_store)"
    by (simp add: example_defs)
  have h2: "find (\<lambda>r. id_attr r = Some 3) (transactions example_store) = Some txn3"
    by (simp add: example_defs)
  have h3: "account_id txn3 \<in> a_id ` set (accounts example_store)"
    by (simp add: example_defs)
  have h4: "category_id txn3 \<in> c_id ` set (categories example_store)"
    by (simp add: example_defs)
  note c1 = getTransaction_not_found_or_loaded [THEN conjunct1, rule_format, OF h1]
  note c2 = getTransaction_not_found_or_loaded
              [THEN conjunct2, THEN conjunct1, rule_format, OF h2, THEN conjunct2]
  from getTransaction_not_found_or_loaded
         [THEN conjunct2, THEN conjunct2, rule_format, OF conjI [OF h2 conjI [OF h3 h4]]]
  obtain a c where ac: "a \<in> set (accounts example_store)" "a_id a = account_id txn3"
      "c \<in> set (categories example_store)" "c_id c = category_id txn3"
    and g: "getTransaction 3 example_store =
               Inr \<lparr>attributes = txn3,
                    relations = [(Account, RelAccount (Some a)), (Category, RelCategory (Some c))]\<rparr>"
    by blast
  from ac have "a = \<lparr>a_id = 2, a_name = ''Savings''\<rparr>" and "c = \<lparr>c_id = 2, c_name = ''Salary''\<rparr>"
    by (auto simp: example_defs)
  with g have c3: "getTransaction 3 example_store =
     Inr \<lparr>attributes = txn3,
          relations =
            [(Account, RelAccount (Some \<lparr>a_id = 2, a_name = ''Savings''\<rparr>)),
             (Category, RelCategory (Some \<lparr>c_id = 2, c_name = ''Salary''\<rparr>))]\<rparr>"
    by simp
  from h1 c1 h2 h3 h4 c2 c3 show ?thesis by (intro conjI)
qed

text \<open>
  C7: after \<^verbatim>\<open>deleteTransaction(id)\<close> has completed, \<^verbatim>\<open>getTransaction(id)\<close> on the
  resulting store is rejected with the not-found error, whatever the identifier and the
  store were.
\<close>

theorem deleteTransaction_then_getTransaction:
  "fst (deleteTransaction i st) = Inr () \<and>
   getTransaction i (snd (deleteTransaction i st)) = Inl NotFound"
  by (simp add: deleteTransaction_def destroy_def getTransaction_def fetch_def find_filter_None)

theorem deleteTransaction_then_getTransaction_witness:
  "getTransaction 2 example_store \<noteq> Inl NotFound \<and>
   getTransaction 2 (snd (deleteTransaction 2 example_store)) = Inl NotFound"
proof -
  have "getTransaction 2 example_store \<noteq> Inl NotFound"
    by (simp add: getTransaction_def fetch_def load_def example_defs)
  with deleteTransaction_then_getTransaction [of 2 example_store] show ?thesis by simp
qed

text \<open>
  C10: with a falsy account identifier (\<^verbatim>\<open>0\<close>, \<^verbatim>\<open>null\<close> or \<^verbatim>\<open>undefined\<close>)
  \<^verbatim>\<open>getTransactions\<close> returns all the rows of the table, not the rows of account 0: the
  filter is set only for a truthy \<^verbatim>\<open>accountId\<close>.
\<close>

theorem getTransactions_falsy_account_returns_all:
  "getTransactions (Given 0) st = getTransactions Undefined st \<and>
   getTransactions Null st = getTransactions Undefined st \<and>
   (\<exists>ms. getTransactions Undefined st = Inr ms \<and> map attributes ms = transactions st)"
  by (simp add: getTransactions_def fetchAll_def load_all_def attributes_attach)

theorem getTransactions_falsy_account_returns_all_witness:
  "getTransactions (Given 0) example_store = getTransactions Undefined example_store \<and>
   getTransactions Null example_store = getTransactions Undefined example_store \<and>
   (\<exists>ms. getTransactions Undefined example_store = Inr ms \<and> map attributes ms = [txn1, txn2, txn3])"
  using getTransactions_falsy_account_returns_all [of example_store]
  by (simp add: example_store_def)

text \<open>
  C6, as amended: \<^verbatim>\<open>getTransactions()\<close> without an argument is fulfilled with all the
  rows; for every integer \<^verbatim>\<open>accountId\<close> other than 0, \<^verbatim>\<open>getTransactions(accountId)\<close> is
  fulfilled with exactly the rows whose \<^verbatim>\<open>account_id\<close> equals \<^verbatim>\<open>accountId\<close>, in the order
  of the table; and whatever the argument, the result is a subset of the unfiltered one.
\<close>

theorem getTransactions_filters_nonzero_account:
  "(\<exists>ms. getTransactions Undefined st = Inr ms \<and> map attributes ms = transactions st) \<and>
   (a \<noteq> 0 \<longrightarrow>
      (\<exists>ms. getTransactions (Given a) st = Inr ms \<and>
            map attributes ms = filter (\<lambda>r. account_id r = a) (transactions st))) \<and>
   (\<exists>ms everything. getTransactions x st = Inr ms \<and> getTransactions Undefined st = Inr everything \<and>
            set ms \<subseteq> set everything)"
proof (intro conjI impI)
  show "\<exists>ms. getTransactions Undefined st = Inr ms \<and> map attributes ms = transactions st"
    by (simp add: getTransactions_def fetchAll_def load_all_def attributes_attach)
next
  assume "a \<noteq> 0"
  then show "\<exists>ms. getTransactions (Given a) st = Inr ms \<and>
            map attributes ms = filter (\<lambda>r. account_id r = a) (transactions st)"
    by (simp add: getTransactions_def fetchAll_def load_all_def attributes_attach)
next
  show "\<exists>ms everything. getTransactions x st = Inr ms \<and> getTransactions Undefined st = Inr everything \<and>
            set ms \<subseteq> set everything"
    by (cases x) (auto simp: getTransactions_def fetchAll_def load_all_def Let_def)
qed

theorem getTransactions_filters_nonzero_account_witness:
  "(2::int) \<noteq> 0 \<and>
   (\<exists>ms. getTransactions (Given 2) example_store = Inr ms \<and> map attributes ms = [txn3])"
proof -
  have h: "(2::int) \<noteq> 0" by simp
  have f: "filter (\<lambda>r. account_id r = 2) (transactions example_store) = [txn3]"
    by (simp add: example_defs)
  from getTransactions_filters_nonzero_account
         [THEN conjunct2, THEN conjunct1, rule_format, OF h, of example_store]
  show ?thesis by (simp add: f)
qed

text \<open>
  C6 as the specification states it fails for the account identifier 0: the call returns
  the three rows of the example store, whose accounts are 1 and 2, and not the rows of
  account 0, of which there are none.
\<close>

theorem getTransactions_account_zero_counterexample:
  "getTransactions (Given 0) example_store =
     Inr [attach example_store [Account, Category] (new_Transaction txn1),
          attach example_store [Account, Category] (new_Transaction txn2),
          attach example_store [Account, Category] (new_Transaction txn3)] \<and>
   account_id txn1 = 1 \<and> account_id txn2 = 1 \<and> account_id txn3 = 2 \<and>
   attributes (attach example_store [Account, Category] (new_Transaction txn1)) = txn1"
  by (simp add: getTransactions_def fetchAll_def load_all_def attach_def new_Transaction_def
      example_defs)

section \<open>Aggregation by category\<close>

lemmas query_defs = getTransactionsByCategory_def leftOuterJoin_def whereBetween_def groupBy_def
  select_def c_dot_id_def c_dot_name_def

lemma leftOuterJoin_Nil: "leftOuterJoin [] cs fk pk = []"
  by (simp add: leftOuterJoin_def)

lemma leftOuterJoin_Cons:
  "leftOuterJoin (t # ts) cs fk pk =
     (case filter (\<lambda>c. fk t = pk c) cs of [] \<Rightarrow> [(t, None)] | ms \<Rightarrow> map (\<lambda>c. (t, Some c)) ms)
     @ leftOuterJoin ts cs fk pk"
  by (simp add: leftOuterJoin_def)

text \<open>The date filter on the joined rows is the date filter on the transactions.\<close>

lemma whereBetween_leftOuterJoin:
  "whereBetween col b (leftOuterJoin ts cs fk pk) =
     leftOuterJoin (filter (\<lambda>t. fst b \<le> col t \<and> col t \<le> snd b) ts) cs fk pk"
proof (induction ts)
  case Nil
  show ?case by (simp add: leftOuterJoin_Nil whereBetween_def)
next
  case (Cons t ts)
  then show ?case
    by (auto simp: leftOuterJoin_Cons whereBetween_def filter_map comp_def split: list.splits)
qed

text \<open>
  The keys of the joined rows: a transaction contributes its \<^verbatim>\<open>category_id\<close> when a
  category has that identifier, and \<^verbatim>\<open>NULL\<close> otherwise.
\<close>

lemma join_keys:
  "c_dot_id ` set (leftOuterJoin ts cs category_id c_id) =
     (\<lambda>t. if category_id t \<in> c_id ` set cs then Some (category_id t) else None) ` set ts"
proof -
  define K :: "transaction \<Rightarrow> int option"
    where "K = (\<lambda>t. if category_id t \<in> c_id ` set cs then Some (category_id t) else None)"
  have block: "c_dot_id ` set (case filter (\<lambda>c. category_id t = c_id c) cs of
                                 [] \<Rightarrow> [(t, None)] | ms \<Rightarrow> map (\<lambda>c. (t, Some c)) ms) = {K t}" for t
  proof (cases "filter (\<lambda>c. category_id t = c_id c) cs")
    case Nil
    then have "category_id t \<notin> c_id ` set cs"
      by (auto simp: filter_empty_conv)
    with Nil show ?thesis by (simp add: K_def c_dot_id_def)
  next
    case (Cons c ms)
    then have "c \<in> set (filter (\<lambda>c. category_id t = c_id c) cs)" by simp
    then have in_cs: "category_id t \<in> c_id ` set cs" by auto
    have "\<forall>c' \<in> set (c # ms). c_id c' = category_id t"
      using Cons [symmetric] by auto
    then have "c_dot_id ` set (map (\<lambda>c. (t, Some c)) (c # ms)) = {Some (category_id t)}"
      by (auto simp: c_dot_id_def image_iff)
    with Cons in_cs show ?thesis by (simp add: K_def)
  qed
  have "c_dot_id ` set (leftOuterJoin ts cs category_id c_id) = K ` set ts"
  proof (induction ts)
    case Nil
    show ?case by (simp add: leftOuterJoin_Nil)
  next
    case (Cons t ts)
    have "c_dot_id ` set (leftOuterJoin (t # ts) cs category_id c_id) =
            {K t} \<union> c_dot_id ` set (leftOuterJoin ts cs category_id c_id)"
      by (simp only: leftOuterJoin_Cons set_append image_Un block)
    with Cons.IH show ?case by simp
  qed
  then show ?thesis by (simp only: K_def)
qed

lemma groupBy_keys: "map fst (groupBy key qb) = remdups (map key qb)"
  by (simp add: groupBy_def comp_def)

lemma select_cat_id: "map cat_id (map select gs) = map fst gs"
  by (simp add: select_def comp_def)

lemma groupBy_nonempty: "g \<in> set (groupBy key qb) \<Longrightarrow> snd g \<noteq> []"
  by (auto simp: groupBy_def filter_empty_conv)

lemma select_amount:
  "snd g \<noteq> [] \<Longrightarrow> amount_sum (select g) = Some (sum_list (map (\<lambda>j. amount (fst j)) (snd g)))"
  by (cases "snd g") (simp_all add: select_def)

lemma getTransactionsByCategory_range:
  "getTransactionsByCategory (Given s) (Given e) st =
     Inr (map select (groupBy c_dot_id
       (leftOuterJoin (filter (\<lambda>t. s \<le> txn_date t \<and> txn_date t \<le> e) (transactions st))
          (categories st) category_id c_id)))"
  by (simp add: getTransactionsByCategory_def whereBetween_leftOuterJoin)

lemma getTransactionsByCategory_all:
  "\<not> (truthy_object x \<and> truthy_object y) \<Longrightarrow>
   getTransactionsByCategory x y st =
     Inr (map select (groupBy c_dot_id
       (leftOuterJoin (transactions st) (categories st) category_id c_id)))"
  by (cases x; cases y) (simp_all add: getTransactionsByCategory_def)

lemma rows_keys:
  "cat_id ` set (map select (groupBy c_dot_id (leftOuterJoin ts cs category_id c_id))) =
     (\<lambda>t. if category_id t \<in> c_id ` set cs then Some (category_id t) else None) ` set ts"
proof -
  let ?qb = "leftOuterJoin ts cs category_id c_id"
  have "cat_id ` set (map select (groupBy c_dot_id ?qb)) =
          set (map cat_id (map select (groupBy c_dot_id ?qb)))"
    by (simp only: set_map)
  also have "\<dots> = set (remdups (map c_dot_id ?qb))"
    by (simp only: select_cat_id groupBy_keys)
  also have "\<dots> = c_dot_id ` set ?qb"
    by (simp only: set_remdups set_map)
  finally show ?thesis by (simp only: join_keys)
qed

lemma rows_distinct: "distinct (map cat_id (map select (groupBy key qb)))"
  by (simp only: select_cat_id groupBy_keys distinct_remdups)

lemma rows_amount_not_null:
  "r \<in> set (map select (groupBy key qb)) \<Longrightarrow> amount_sum r \<noteq> None"
  by (auto simp: select_amount dest!: groupBy_nonempty)

text \<open>
  C9: with exactly one of \<^verbatim>\<open>startDate\<close> and \<^verbatim>\<open>endDate\<close> supplied (the other left out or
  \<^verbatim>\<open>null\<close>), \<^verbatim>\<open>getTransactionsByCategory\<close> returns what it returns with neither: the
  aggregation over all transactions, without a date filter and without an error.
\<close>

theorem getTransactionsByCategory_single_date_ignored:
  "getTransactionsByCategory (Given d) Undefined st = getTransactionsByCategory Undefined Undefined st \<and>
   getTransactionsByCategory (Given d) Null st = getTransactionsByCategory Undefined Undefined st \<and>
   getTransactionsByCategory Undefined (Given d) st = getTransactionsByCategory Undefined Undefined st \<and>
   getTransactionsByCategory Null (Given d) st = getTransactionsByCategory Undefined Undefined st \<and>
   getTransactionsByCategory Undefined Undefined st =
     Inr (map select (groupBy c_dot_id (leftOuterJoin (transactions st) (categories st) category_id c_id)))"
  by (simp add: getTransactionsByCategory_def)

theorem getTransactionsByCategory_single_date_ignored_witness:
  "getTransactionsByCategory (Given 250) Null example_store =
     getTransactionsByCategory Undefined Undefined example_store \<and>
   getTransactionsByCategory Undefined (Given 250) example_store =
     getTransactionsByCategory Undefined Undefined example_store \<and>
   getTransactionsByCategory Undefined Undefined example_store \<noteq>
     getTransactionsByCategory (Given 250) (Given 250) example_store"
proof -
  have "getTransactionsByCategory Undefined Undefined example_store \<noteq>
     getTransactionsByCategory (Given 250) (Given 250) example_store"
    by (simp add: query_defs example_defs)
  with getTransactionsByCategory_single_date_ignored [of 250 example_store] show ?thesis
    by simp
qed

lemma category_rows_of_some_transactions:
  "\<exists>ts. set ts \<subseteq> set (transactions st) \<and>
        getTransactionsByCategory x y st =
          Inr (map select (groupBy c_dot_id (leftOuterJoin ts (categories st) category_id c_id)))"
proof (cases "truthy_object x \<and> truthy_object y")
  case True
  then obtain s e where "x = Given s" and "y = Given e"
    by (cases x; cases y) simp_all
  then have "getTransactionsByCategory x y st =
     Inr (map select (groupBy c_dot_id
       (leftOuterJoin (filter (\<lambda>t. s \<le> txn_date t \<and> txn_date t \<le> e) (transactions st))
          (categories st) category_id c_id)))"
    by (simp only: getTransactionsByCategory_range)
  moreover have "set (filter (\<lambda>t. s \<le> txn_date t \<and> txn_date t \<le> e) (transactions st))
                   \<subseteq> set (transactions st)"
    by simp
  ultimately show ?thesis by blast
next
  case False
  then have "getTransactionsByCategory x y st =
     Inr (map select (groupBy c_dot_id
       (leftOuterJoin (transactions st) (categories st) category_id c_id)))"
    by (rule getTransactionsByCategory_all)
  then show ?thesis by blast
qed

text \<open>
  C1, as amended: the result of \<^verbatim>\<open>getTransactionsByCategory\<close> has exactly one row for
  every category that a transaction passing the date filter belongs to, and one row with
  a null category when such a transaction has a \<^verbatim>\<open>category_id\<close> that no category has; the
  amount of every row is a sum, never null. A category that no transaction refers to has
  no row: the transactions are the left, preserved side of the left-outer join.
\<close>

theorem getTransactionsByCategory_rows_are_transaction_categories:
  "(getTransactionsByCategory (Given s) (Given e) st = Inr rows \<longrightarrow>
      cat_id ` set rows =
        (\<lambda>t. if category_id t \<in> c_id ` set (categories st) then Some (category_id t) else None) `
          {t \<in> set (transactions st). s \<le> txn_date t \<and> txn_date t \<le> e}) \<and>
   (getTransactionsByCategory Undefined Undefined st = Inr rows \<longrightarrow>
      cat_id ` set rows =
        (\<lambda>t. if category_id t \<in> c_id ` set (categories st) then Some (category_id t) else None) `
          set (transactions st)) \<and>
   (getTransactionsByCategory x y st = Inr rows \<longrightarrow>
      distinct (map cat_id rows) \<and> (\<forall>r \<in> set rows. amount_sum r \<noteq> None)) \<and>
   (getTransactionsByCategory x y st = Inr rows \<and> k \<notin> category_id ` set (transactions st) \<longrightarrow>
      Some k \<notin> cat_id ` set rows)"
proof (intro conjI impI)
  assume "getTransactionsByCategory (Given s) (Given e) st = Inr rows"
  then have "rows = map select (groupBy c_dot_id
       (leftOuterJoin (filter (\<lambda>t. s \<le> txn_date t \<and> txn_date t \<le> e) (transactions st))
          (categories st) category_id c_id))"
    by (simp add: getTransactionsByCategory_range)
  then show "cat_id ` set rows =
        (\<lambda>t. if category_id t \<in> c_id ` set (categories st) then Some (category_id t) else None) `
          {t \<in> set (transactions st). s \<le> txn_date t \<and> txn_date t \<le> e}"
    by (simp only: rows_keys set_filter)
next
  assume "getTransactionsByCategory Undefined Undefined st = Inr rows"
  then have "rows = map select (groupBy c_dot_id
       (leftOuterJoin (transactions st) (categories st) category_id c_id))"
    by (simp add: getTransactionsByCategory_all)
  then show "cat_id ` set rows =
        (\<lambda>t. if category_id t \<in> c_id ` set (categories st) then Some (category_id t) else None) `
          set (transactions st)"
    by (simp only: rows_keys)
next
  assume "getTransactionsByCategory x y st = Inr rows"
  with category_rows_of_some_transactions [of st x y]
  obtain ts where "rows = map select (groupBy c_dot_id (leftOuterJoin ts (categories st) category_id c_id))"
    by auto
  then show "distinct (map cat_id rows)" by (simp only: rows_distinct)
next
  assume "getTransactionsByCategory x y st = Inr rows"
  with category_rows_of_some_transactions [of st x y]
  obtain ts where "rows = map select (groupBy c_dot_id (leftOuterJoin ts (categories st) category_id c_id))"
    by auto
  then show "\<forall>r \<in> set rows. amount_sum r \<noteq> None"
    using rows_amount_not_null by blast
next
  assume a: "getTransactionsByCategory x y st = Inr rows \<and> k \<notin> category_id ` set (transactions st)"
  with category_rows_of_some_transactions [of st x y]
  obtain ts where sub: "set ts \<subseteq> set (transactions st)"
    and rows: "rows = map select (groupBy c_dot_id (leftOuterJoin ts (categories st) category_id c_id))"
    by auto
  show "Some k \<notin> cat_id ` set rows"
  proof
    assume "Some k \<in> cat_id ` set rows"
    then have "Some k \<in> (\<lambda>t. if category_id t \<in> c_id ` set (categories st)
                               then Some (category_id t) else None) ` set ts"
      by (simp only: rows rows_keys)
    then obtain t where "t \<in> set ts" and "category_id t = k"
      by (auto split: if_splits)
    with sub a show False by auto
  qed
qed

theorem getTransactionsByCategory_rows_are_transaction_categories_witness:
  "getTransactionsByCategory (Given 150) (Given 400) example_store2 =
     Inr [\<lparr>cat_id = Some 1, cat_name = Some ''Auto'', amount_sum = Some (- 20)\<rparr>,
          \<lparr>cat_id = Some 2, cat_name = Some ''Salary'', amount_sum = Some 100\<rparr>,
          \<lparr>cat_id = None, cat_name = None, amount_sum = Some 7\<rparr>] \<and>
   cat_id ` set [\<lparr>cat_id = Some 1, cat_name = Some ''Auto'', amount_sum = Some (- 20)\<rparr>,
          \<lparr>cat_id = Some 2, cat_name = Some ''Salary'', amount_sum = Some 100\<rparr>,
          \<lparr>cat_id = None, cat_name = None, amount_sum = Some 7\<rparr>] =
     (\<lambda>t. if category_id t \<in> c_id ` set (categories example_store2) then Some (category_id t) else None) `
          {t \<in> set (transactions example_store2). 150 \<le> txn_date t \<and> txn_date t \<le> 400} \<and>
   getTransactionsByCategory Undefined Undefined example_store =
     Inr [\<lparr>cat_id = Some 1, cat_name = Some ''Auto'', amount_sum = Some (- 50)\<rparr>,
          \<lparr>cat_id = Some 2, cat_name = Some ''Salary'', amount_sum = Some 100\<rparr>] \<and>
   cat_id ` set [\<lparr>cat_id = Some 1, cat_name = Some ''Auto'', amount_sum = Some (- 50)\<rparr>,
          \<lparr>cat_id = Some 2, cat_name = Some ''Salary'', amount_sum = Some 100\<rparr>] =
     (\<lambda>t. if category_id t \<in> c_id ` set (categories example_store) then Some (category_id t) else None) `
          set (transactions example_store) \<and>
   distinct (map cat_id [\<lparr>cat_id = Some 1, cat_name = Some ''Auto'', amount_sum = Some (- 50)\<rparr>,
          \<lparr>cat_id = Some 2, cat_name = Some ''Salary'', amount_sum = Some 100\<rparr>]) \<and>
   3 \<notin> category_id ` set (transactions example_store) \<and>
   Some 3 \<notin> cat_id ` set [\<lparr>cat_id = Some 1, cat_name = Some ''Auto'', amount_sum = Some (- 50)\<rparr>,
          \<lparr>cat_id = Some 2, cat_name = Some ''Salary'', amount_sum = Some 100\<rparr>]"
proof -
  have h1: "getTransactionsByCategory (Given 150) (Given 400) example_store2 =
     Inr [\<lparr>cat_id = Some 1, cat_name = Some ''Auto'', amount_sum = Some (- 20)\<rparr>,
          \<lparr>cat_id = Some 2, cat_name = Some ''Salary'', amount_sum = Some 100\<rparr>,
          \<lparr>cat_id = None, cat_name = None, amount_sum = Some 7\<rparr>]"
    by (simp add: query_defs example_defs)
  have h2: "getTransactionsByCategory Undefined Undefined example_store =
     Inr [\<lparr>cat_id = Some 1, cat_name = Some ''Auto'', amount_sum = Some (- 50)\<rparr>,
          \<lparr>cat_id = Some 2, cat_name = Some ''Salary'', amount_sum = Some 100\<rparr>]"
    by (simp add: query_defs example_defs)
  have h3: "3 \<notin> category_id ` set (transactions example_store)"
    by (simp add: example_defs)
  note c1 = getTransactionsByCategory_rows_are_transaction_categories
              [THEN conjunct1, rule_format, OF h1]
  note c2 = getTransactionsByCategory_rows_are_transaction_categories
              [THEN conjunct2, THEN conjunct1, rule_format, OF h2]
  note c3 = getTransactionsByCategory_rows_are_transaction_categories
              [THEN conjunct2, THEN conjunct2, THEN conjunct1, rule_format, OF h2]
  note c4 = getTransactionsByCategory_rows_are_transaction_categories
              [THEN conjunct2, THEN conjunct2, THEN conjunct2, rule_format, OF conjI [OF h2 h3]]
  from c3 have c3': "distinct (map cat_id [\<lparr>cat_id = Some 1, cat_name = Some ''Auto'', amount_sum = Some (- 50)\<rparr>,
          \<lparr>cat_id = Some 2, cat_name = Some ''Salary'', amount_sum = Some 100\<rparr>])"
    by (rule conjunct1)
  from h1 h2 h3 c1 c2 c3' c4 show ?thesis by (intro conjI)
qed

text \<open>
  C1 as the specification states it fails on the example store: category 3 is a category
  of the store and no transaction refers to it, and the result has a row for the
  categories 1 and 2 only.
\<close>

theorem getTransactionsByCategory_unused_category_counterexample:
  "getTransactionsByCategory Undefined Undefined example_store =
     Inr [\<lparr>cat_id = Some 1, cat_name = Some ''Auto'', amount_sum = Some (- 50)\<rparr>,
          \<lparr>cat_id = Some 2, cat_name = Some ''Salary'', amount_sum = Some 100\<rparr>] \<and>
   \<lparr>c_id = 3, c_name = ''Travel''\<rparr> \<in> set (categories example_store) \<and>
   Some 3 \<notin> cat_id ` set [\<lparr>cat_id = Some 1, cat_name = Some ''Auto'', amount_sum = Some (- 50)\<rparr>,
          \<lparr>cat_id = Some 2, cat_name = Some ''Salary'', amount_sum = Some 100\<rparr>]"
  by (simp add: query_defs example_defs)

subsection \<open>The amount of a row\<close>

text \<open>
  The identifier is the primary key of the categories: no two categories share it. A
  transaction then joins with at most one category.
\<close>

lemma filter_primary_key:
  "distinct (map pk cs) \<Longrightarrow>
   filter (\<lambda>c. k = pk c) cs = (case find (\<lambda>c. k = pk c) cs of None \<Rightarrow> [] | Some c \<Rightarrow> [c])"
proof (induction cs)
  case Nil
  show ?case by simp
next
  case (Cons c cs)
  show ?case
  proof (cases "k = pk c")
    case True
    with Cons.prems have "filter (\<lambda>c. k = pk c) cs = []"
      by (auto simp: filter_empty_conv)
    with True show ?thesis by simp
  next
    case False
    with Cons show ?thesis by simp
  qed
qed

lemma leftOuterJoin_primary_key:
  "distinct (map pk cs) \<Longrightarrow>
   leftOuterJoin ts cs fk pk = map (\<lambda>t. (t, find (\<lambda>c. fk t = pk c) cs)) ts"
  by (induction ts)
     (simp_all add: leftOuterJoin_Nil leftOuterJoin_Cons filter_primary_key split: option.splits)

lemma find_category_key:
  "map_option c_id (find (\<lambda>c. k = c_id c) cs) = (if k \<in> c_id ` set cs then Some k else None)"
  by (induction cs) auto

lemma group_sum:
  assumes "distinct (map c_id cs)"
  shows "sum_list (map (\<lambda>j. amount (fst j))
            (filter (\<lambda>j. c_dot_id j = key) (leftOuterJoin ts cs category_id c_id))) =
         sum_list (map amount
            (filter (\<lambda>t. (if category_id t \<in> c_id ` set cs then Some (category_id t) else None) = key) ts))"
  by (simp add: leftOuterJoin_primary_key [OF assms] filter_map comp_def c_dot_id_def find_category_key)

lemma row_amount:
  assumes pk: "distinct (map c_id cs)"
    and r: "r \<in> set (map select (groupBy c_dot_id (leftOuterJoin ts cs category_id c_id)))"
  shows "amount_sum r = Some (sum_list (map amount
            (filter (\<lambda>t. (if category_id t \<in> c_id ` set cs then Some (category_id t) else None) = cat_id r) ts)))"
proof -
  let ?qb = "leftOuterJoin ts cs category_id c_id"
  from r obtain g where g: "g \<in> set (groupBy c_dot_id ?qb)" and rg: "r = select g" by auto
  from g have ne: "snd g \<noteq> []" by (rule groupBy_nonempty)
  from g have sg: "snd g = filter (\<lambda>j. c_dot_id j = fst g) ?qb"
    by (auto simp: groupBy_def)
  have "cat_id r = fst g" by (simp add: rg select_def)
  moreover have "amount_sum r = Some (sum_list (map (\<lambda>j. amount (fst j)) (snd g)))"
    using ne by (simp add: rg select_amount)
  ultimately show ?thesis
    using group_sum [OF pk, of "fst g" ts] by (simp add: sg)
qed

lemma row_amount_category:
  assumes pk: "distinct (map c_id cs)"
    and r: "r \<in> set (map select (groupBy c_dot_id (leftOuterJoin ts cs category_id c_id)))"
    and k: "cat_id r = Some k"
  shows "amount_sum r = Some (sum_list (map amount (filter (\<lambda>t. category_id t = k) ts)))"
proof -
  from r have "cat_id r \<in> cat_id ` set (map select (groupBy c_dot_id (leftOuterJoin ts cs category_id c_id)))"
    by (rule imageI)
  then have "Some k \<in> (\<lambda>t. if category_id t \<in> c_id ` set cs then Some (category_id t) else None) ` set ts"
    by (simp only: rows_keys k)
  then have "k \<in> c_id ` set cs" by (auto split: if_splits)
  then have eq: "(\<lambda>t. (if category_id t \<in> c_id ` set cs then Some (category_id t) else None) = Some k)
               = (\<lambda>t. category_id t = k)"
    by (auto simp: fun_eq_iff)
  from row_amount [OF pk r] show ?thesis by (simp only: k eq)
qed

lemma row_amount_null:
  assumes pk: "distinct (map c_id cs)"
    and r: "r \<in> set (map select (groupBy c_dot_id (leftOuterJoin ts cs category_id c_id)))"
    and k: "cat_id r = None"
  shows "amount_sum r = Some (sum_list (map amount (filter (\<lambda>t. category_id t \<notin> c_id ` set cs) ts)))"
proof -
  have eq: "(\<lambda>t. (if category_id t \<in> c_id ` set cs then Some (category_id t) else None) = None)
               = (\<lambda>t. category_id t \<notin> c_id ` set cs)"
    by (auto simp: fun_eq_iff)
  from row_amount [OF pk r] show ?thesis by (simp only: k eq)
qed

text \<open>
  C2: in every store whose categories have distinct identifiers, each row returned by
  \<^verbatim>\<open>getTransactionsByCategory(start, end)\<close> has as its amount the sum of the amounts of the
  transactions of the row's category whose \<^verbatim>\<open>txn_date\<close> lies in the range from \<^verbatim>\<open>start\<close> to
  \<^verbatim>\<open>end\<close>, both bounds included; with both dates left out the sum is over all the
  transactions of the category. The row with a null category sums the transactions whose
  \<^verbatim>\<open>category_id\<close> no category has. The rows are grouped by category id: no two rows have
  the same one.
\<close>

theorem getTransactionsByCategory_amount_is_category_sum:
  assumes pk: "distinct (map c_id (categories st))"
  shows
  "(getTransactionsByCategory (Given s) (Given e) st = Inr rows \<and> r \<in> set rows \<and> cat_id r = Some k \<longrightarrow>
      amount_sum r = Some (sum_list (map amount
         (filter (\<lambda>t. category_id t = k)
            (filter (\<lambda>t. s \<le> txn_date t \<and> txn_date t \<le> e) (transactions st)))))) \<and>
   (getTransactionsByCategory (Given s) (Given e) st = Inr rows \<and> r \<in> set rows \<and> cat_id r = None \<longrightarrow>
      amount_sum r = Some (sum_list (map amount
         (filter (\<lambda>t. category_id t \<notin> c_id ` set (categories st))
            (filter (\<lambda>t. s \<le> txn_date t \<and> txn_date t \<le> e) (transactions st)))))) \<and>
   (getTransactionsByCategory Undefined Undefined st = Inr rows \<and> r \<in> set rows \<and> cat_id r = Some k \<longrightarrow>
      amount_sum r = Some (sum_list (map amount
         (filter (\<lambda>t. category_id t = k) (transactions st))))) \<and>
   (getTransactionsByCategory Undefined Undefined st = Inr rows \<and> r \<in> set rows \<and> cat_id r = None \<longrightarrow>
      amount_sum r = Some (sum_list (map amount
         (filter (\<lambda>t. category_id t \<notin> c_id ` set (categories st)) (transactions st))))) \<and>
   (getTransactionsByCategory x y st = Inr rows \<longrightarrow> distinct (map cat_id rows))"
proof (intro conjI impI)
  assume a: "getTransactionsByCategory (Given s) (Given e) st = Inr rows \<and> r \<in> set rows \<and> cat_id r = Some k"
  then have "r \<in> set (map select (groupBy c_dot_id
       (leftOuterJoin (filter (\<lambda>t. s \<le> txn_date t \<and> txn_date t \<le> e) (transactions st))
          (categories st) category_id c_id)))"
    by (auto simp: getTransactionsByCategory_range)
  from row_amount_category [OF pk this] a
  show "amount_sum r = Some (sum_list (map amount
         (filter (\<lambda>t. category_id t = k)
            (filter (\<lambda>t. s \<le> txn_date t \<and> txn_date t \<le> e) (transactions st)))))"
    by simp
next
  assume a: "getTransactionsByCategory (Given s) (Given e) st = Inr rows \<and> r \<in> set rows \<and> cat_id r = None"
  then have "r \<in> set (map select (groupBy c_dot_id
       (leftOuterJoin (filter (\<lambda>t. s \<le> txn_date t \<and> txn_date t \<le> e) (transactions st))
          (categories st) category_id c_id)))"
    by (auto simp: getTransactionsByCategory_range)
  from row_amount_null [OF pk this] a
  show "amount_sum r = Some (sum_list (map amount
         (filter (\<lambda>t. category_id t \<notin> c_id ` set (categories st))
            (filter (\<lambda>t. s \<le> txn_date t \<and> txn_date t \<le> e) (transactions st)))))"
    by simp
next
  assume a: "getTransactionsByCategory Undefined Undefined st = Inr rows \<and> r \<in> set rows \<and> cat_id r = Some k"
  then have "r \<in> set (map select (groupBy c_dot_id
       (leftOuterJoin (transactions st) (categories st) category_id c_id)))"
    by (auto simp: getTransactionsByCategory_all)
  from row_amount_category [OF pk this] a
  show "amount_sum r = Some (sum_list (map amount
         (filter (\<lambda>t. category_id t = k) (transactions st))))"
    by simp
next
  assume a: "getTransactionsByCategory Undefined Undefined st = Inr rows \<and> r \<in> set rows \<and> cat_id r = None"
  then have "r \<in> set (map select (groupBy c_dot_id
       (leftOuterJoin (transactions st) (categories st) category_id c_id)))"
    by (auto simp: getTransactionsByCategory_all)
  from row_amount_null [OF pk this] a
  show "amount_sum r = Some (sum_list (map amount
         (filter (\<lambda>t. category_id t \<notin> c_id ` set (categories st)) (transactions st))))"
    by simp
next
  assume "getTransactionsByCategory x y st = Inr rows"
  with category_rows_of_some_transactions [of st x y]
  obtain ts where "rows = map select (groupBy c_dot_id (leftOuterJoin ts (categories st) category_id c_id))"
    by auto
  then show "distinct (map cat_id rows)" by (simp only: rows_distinct)
qed

theorem getTransactionsByCategory_amount_is_category_sum_witness:
  "distinct (map c_id (categories example_store2)) \<and>
   getTransactionsByCategory (Given 150) (Given 400) example_store2 =
     Inr [\<lparr>cat_id = Some 1, cat_name = Some ''Auto'', amount_sum = Some (- 20)\<rparr>,
          \<lparr>cat_id = Some 2, cat_name = Some ''Salary'', amount_sum = Some 100\<rparr>,
          \<lparr>cat_id = None, cat_name = None, amount_sum = Some 7\<rparr>] \<and>
   amount_sum \<lparr>cat_id = Some 1, cat_name = Some ''Auto'', amount_sum = Some (- 20)\<rparr> =
     Some (sum_list (map amount
         (filter (\<lambda>t. category_id t = 1)
            (filter (\<lambda>t. 150 \<le> txn_date t \<and> txn_date t \<le> 400) (transactions example_store2))))) \<and>
   amount_sum \<lparr>cat_id = None, cat_name = None, amount_sum = Some 7\<rparr> =
     Some (sum_list (map amount
         (filter (\<lambda>t. category_id t \<notin> c_id ` set (categories example_store2))
            (filter (\<lambda>t. 150 \<le> txn_date t \<and> txn_date t \<le> 400) (transactions example_store2))))) \<and>
   getTransactionsByCategory Undefined Undefined example_store2 =
     Inr [\<lparr>cat_id = Some 1, cat_name = Some ''Auto'', amount_sum = Some (- 50)\<rparr>,
          \<lparr>cat_id = Some 2, cat_name = Some ''Salary'', amount_sum = Some 100\<rparr>,
          \<lparr>cat_id = None, cat_name = None, amount_sum = Some 7\<rparr>] \<and>
   amount_sum \<lparr>cat_id = Some 1, cat_name = Some ''Auto'', amount_sum = Some (- 50)\<rparr> =
     Some (sum_list (map amount (filter (\<lambda>t. category_id t = 1) (transactions example_store2)))) \<and>
   amount_sum \<lparr>cat_id = None, cat_name = None, amount_sum = Some 7\<rparr> =
     Some (sum_list (map amount
         (filter (\<lambda>t. category_id t \<notin> c_id ` set (categories example_store2))
            (transactions example_store2)))) \<and>
   distinct (map cat_id [\<lparr>cat_id = Some 1, cat_name = Some ''Auto'', amount_sum = Some (- 50)\<rparr>,
          \<lparr>cat_id = Some 2, cat_name = Some ''Salary'', amount_sum = Some 100\<rparr>,
          \<lparr>cat_id = None, cat_name = None, amount_sum = Some 7\<rparr>])"
proof -
  have pk: "distinct (map c_id (categories example_store2))"
    by (simp add: example_defs)
  have h1: "getTransactionsByCategory (Given 150) (Given 400) example_store2 =
     Inr [\<lparr>cat_id = Some 1, cat_name = Some ''Auto'', amount_sum = Some (- 20)\<rparr>,
          \<lparr>cat_id = Some 2, cat_name = Some ''Salary'', amount_sum = Some 100\<rparr>,
          \<lparr>cat_id = None, cat_name = None, amount_sum = Some 7\<rparr>]"
    by (simp add: query_defs example_defs)
  have h2: "getTransactionsByCategory Undefined Undefined example_store2 =
     Inr [\<lparr>cat_id = Some 1, cat_name = Some ''Auto'', amount_sum = Some (- 50)\<rparr>,
          \<lparr>cat_id = Some 2, cat_name = Some ''Salary'', amount_sum = Some 100\<rparr>,
          \<lparr>cat_id = None, cat_name = None, amount_sum = Some 7\<rparr>]"
    by (simp add: query_defs example_defs)
  note inst = getTransactionsByCategory_amount_is_category_sum [OF pk]
  have a1: "getTransactionsByCategory (Given 150) (Given 400) example_store2 =
     Inr [\<lparr>cat_id = Some 1, cat_name = Some ''Auto'', amount_sum = Some (- 20)\<rparr>,
          \<lparr>cat_id = Some 2, cat_name = Some ''Salary'', amount_sum = Some 100\<rparr>,
          \<lparr>cat_id = None, cat_name = None, amount_sum = Some 7\<rparr>] \<and>
     \<lparr>cat_id = Some 1, cat_name = Some ''Auto'', amount_sum = Some (- 20)\<rparr> \<in>
       set [\<lparr>cat_id = Some 1, cat_name = Some ''Auto'', amount_sum = Some (- 20)\<rparr>,
          \<lparr>cat_id = Some 2, cat_name = Some ''Salary'', amount_sum = Some 100\<rparr>,
          \<lparr>cat_id = None, cat_name = None, amount_sum = Some 7\<rparr>] \<and>
     cat_id \<lparr>cat_id = Some 1, cat_name = Some ''Auto'', amount_sum = Some (- 20)\<rparr> = Some 1"
    using h1 by simp
  have a2: "getTransactionsByCategory (Given 150) (Given 400) example_store2 =
     Inr [\<lparr>cat_id = Some 1, cat_name = Some ''Auto'', amount_sum = Some (- 20)\<rparr>,
          \<lparr>cat_id = Some 2, cat_name = Some ''Salary'', amount_sum = Some 100\<rparr>,
          \<lparr>cat_id = None, cat_name = None, amount_sum = Some 7\<rparr>] \<and>
     \<lparr>cat_id = None, cat_name = None, amount_sum = Some 7\<rparr> \<in>
       set [\<lparr>cat_id = Some 1, cat_name = Some ''Auto'', amount_sum = Some (- 20)\<rparr>,
          \<lparr>cat_id = Some 2, cat_name = Some ''Salary'', amount_sum = Some 100\<rparr>,
          \<lparr>cat_id = None, cat_name = None, amount_sum = Some 7\<rparr>] \<and>
     cat_id \<lparr>cat_id = None, cat_name = None, amount_sum = Some 7\<rparr> = None"
    using h1 by simp
  have a3: "getTransactionsByCategory Undefined Undefined example_store2 =
     Inr [\<lparr>cat_id = Some 1, cat_name = Some ''Auto'', amount_sum = Some (- 50)\<rparr>,
          \<lparr>cat_id = Some 2, cat_name = Some ''Salary'', amount_sum = Some 100\<rparr>,
          \<lparr>cat_id = None, cat_name = None, amount_sum = Some 7\<rparr>] \<and>
     \<lparr>cat_id = Some 1, cat_name = Some ''Auto'', amount_sum = Some (- 50)\<rparr> \<in>
       set [\<lparr>cat_id = Some 1, cat_name = Some ''Auto'', amount_sum = Some (- 50)\<rparr>,
          \<lparr>cat_id = Some 2, cat_name = Some ''Salary'', amount_sum = Some 100\<rparr>,
          \<lparr>cat_id = None, cat_name = None, amount_sum = Some 7\<rparr>] \<and>
     cat_id \<lparr>cat_id = Some 1, cat_name = Some ''Auto'', amount_sum = Some (- 50)\<rparr> = Some 1"
    using h2 by simp
  have a4: "getTransactionsByCategory Undefined Undefined example_store2 =
     Inr [\<lparr>cat_id = Some 1, cat_name = Some ''Auto'', amount_sum = Some (- 50)\<rparr>,
          \<lparr>cat_id = Some 2, cat_name = Some ''Salary'', amount_sum = Some 100\<rparr>,
          \<lparr>cat_id = None, cat_name = None, amount_sum = Some 7\<rparr>] \<and>
     \<lparr>cat_id = None, cat_name = None, amount_sum = Some 7\<rparr> \<in>
       set [\<lparr>cat_id = Some 1, cat_name = Some ''Auto'', amount_sum = Some (- 50)\<rparr>,
          \<lparr>cat_id = Some 2, cat_name = Some ''Salary'', amount_sum = Some 100\<rparr>,
          \<lparr>cat_id = None, cat_name = None, amount_sum = Some 7\<rparr>] \<and>
     cat_id \<lparr>cat_id = None, cat_name = None, amount_sum = Some 7\<rparr> = None"
    using h2 by simp
  note c1 = inst [THEN conjunct1, rule_format, OF a1]
  note c2 = inst [THEN conjunct2, THEN conjunct1, rule_format, OF a2]
  note c3 = inst [THEN conjunct2, THEN conjunct2, THEN conjunct1, rule_format, OF a3]
  note c4 = inst [THEN conjunct2, THEN conjunct2, THEN conjunct2, THEN conjunct1, rule_format, OF a4]
  note c5 = inst [THEN conjunct2, THEN conjunct2, THEN conjunct2, THEN conjunct2, rule_format, OF h2]
  from pk h1 c1 c2 h2 c3 c4 c5 show ?thesis by (intro conjI)
qed

end
